theory Spec2Isabelle
  imports Main
begin

section \<open>JavaScript values and the runtime operations the service uses\<close>

text \<open>
  The service is TypeScript: its types are erased at run time, and both handlers read
  \<open>req.body\<close>, the value \<open>express.json()\<close> parsed from the request. The model therefore
  works on JavaScript values as \<open>JSON.parse\<close> builds them, plus \<open>undefined\<close>, which
  reading a missing property returns.

  \<^item> A number is kept as the text JavaScript prints for it (\<open>Number.prototype.toString\<close>,
    for instance \<open>1\<close>, \<open>0.5\<close>, \<open>1e+21\<close>). The service never calculates with a number
    of the body: it tests it for truthiness, interpolates it into a string, or serialises
    it, and all three are functions of that text (\<open>0\<close> and \<open>-0\<close> both print as \<open>0\<close>
    and are both falsy; JSON has no \<open>NaN\<close>).
  \<^item> An object is the list of its own properties in property order, each key once.
  \<^item> A string is a \<open>string\<close>, one character for each code unit; code units above 255
    are beyond this model.

  With its default \<open>strict\<close> setting \<open>express.json()\<close> hands over an object or an array;
  the model takes any value.
\<close>

datatype jsval =
    JUndefined
  | JNull
  | JBool bool
  | JNum string
  | JStr string
  | JArr "jsval list"
  | JObj "(string \<times> jsval) list"

text \<open>The only exception the handlers can meet on parsed JSON is a \<open>TypeError\<close>.\<close>

datatype js_error = TypeError

definition own_property :: "(string \<times> jsval) list \<Rightarrow> string \<Rightarrow> jsval" where
  "own_property kvs k = (case map_of kvs k of None \<Rightarrow> JUndefined | Some v \<Rightarrow> v)"

text \<open>
  \<open>v.k\<close> for the property names the service reads (\<open>model\<close>, \<open>messages\<close>, \<open>role\<close>,
  \<open>content\<close>, \<open>type\<close>, \<open>text\<close>, \<open>name\<close>, \<open>input\<close>, \<open>description\<close>, \<open>input_schema\<close>,
  \<open>system\<close>, \<open>tools\<close>). None of them is inherited from a prototype, so an array, a
  string, a number or a boolean answers \<open>undefined\<close>; reading a property of \<open>null\<close> or
  \<open>undefined\<close> throws. (\<open>length\<close> and \<open>map\<close> are modelled apart, below.)
\<close>

fun get_prop :: "jsval \<Rightarrow> string \<Rightarrow> js_error + jsval" where
  "get_prop JUndefined k = Inl TypeError"
| "get_prop JNull k = Inl TypeError"
| "get_prop (JObj kvs) k = Inr (own_property kvs k)"
| "get_prop v k = Inr JUndefined"

text \<open>\<open>!v\<close> is \<open>\<not> truthy v\<close>.\<close>

fun truthy :: "jsval \<Rightarrow> bool" where
  "truthy JUndefined = False"
| "truthy JNull = False"
| "truthy (JBool b) = b"
| "truthy (JNum s) = (s \<noteq> ''0'')"
| "truthy (JStr s) = (s \<noteq> [])"
| "truthy (JArr xs) = True"
| "truthy (JObj kvs) = True"

text \<open>\<open>typeof v === "string"\<close> and \<open>Array.isArray(v)\<close>.\<close>

fun is_string :: "jsval \<Rightarrow> bool" where
  "is_string (JStr s) = True"
| "is_string v = False"

fun isArray :: "jsval \<Rightarrow> bool" where
  "isArray (JArr xs) = True"
| "isArray v = False"

text \<open>
  The elements of a value known to be an array, and the characters of a value known to
  be a string: both are used only after the test they depend on.
\<close>

fun elements :: "jsval \<Rightarrow> jsval list" where
  "elements (JArr xs) = xs"
| "elements v = []"

fun chars :: "jsval \<Rightarrow> string" where
  "chars (JStr s) = s"
| "chars v = []"

text \<open>\<open>parts.join(sep)\<close> on an array of strings.\<close>

fun join :: "string \<Rightarrow> string list \<Rightarrow> string" where
  "join sep [] = []"
| "join sep [x] = x"
| "join sep (x # y # ys) = x @ sep @ join sep (y # ys)"

definition newline :: string where
  "newline = [CHR 0x0A]"

text \<open>
  \<open>ToString\<close>, which a template literal applies to each substitution and \<open>join\<close> to each
  element. An array prints its elements separated by commas, \<open>null\<close> and \<open>undefined\<close>
  elements as nothing. A parsed object prints as \<open>[object Object]\<close> through
  \<open>Object.prototype.toString\<close>, unless it has an own property \<open>toString\<close>: that value
  is not callable, the inherited \<open>valueOf\<close> returns the object itself, and the conversion
  throws.
\<close>

fun ToString :: "jsval \<Rightarrow> js_error + string"
  and element_strings :: "jsval list \<Rightarrow> js_error + string list" where
  "ToString JUndefined = Inr ''undefined''"
| "ToString JNull = Inr ''null''"
| "ToString (JBool b) = Inr (if b then ''true'' else ''false'')"
| "ToString (JNum s) = Inr s"
| "ToString (JStr s) = Inr s"
| "ToString (JArr xs) =
     (case element_strings xs of Inl e \<Rightarrow> Inl e | Inr ss \<Rightarrow> Inr (join '','' ss))"
| "ToString (JObj kvs) =
     (if ''toString'' \<in> fst ` set kvs then Inl TypeError else Inr ''[object Object]'')"
| "element_strings [] = Inr []"
| "element_strings (x # xs) =
     (case (if x = JUndefined \<or> x = JNull then Inr [] else ToString x) of
        Inl e \<Rightarrow> Inl e
      | Inr s \<Rightarrow> (case element_strings xs of Inl e \<Rightarrow> Inl e | Inr ss \<Rightarrow> Inr (s # ss)))"

text \<open>\<open>xs.join(sep)\<close> on an array of any values.\<close>

definition Array_join :: "string \<Rightarrow> jsval list \<Rightarrow> js_error + string" where
  "Array_join sep xs =
     (case element_strings xs of Inl e \<Rightarrow> Inl e | Inr ss \<Rightarrow> Inr (join sep ss))"

text \<open>
  The digit for a number below sixteen, and the decimal digits of an array index, as
  \<open>${i}\<close> prints it.
\<close>

definition digit :: "nat \<Rightarrow> char" where
  "digit n = ''0123456789abcdef'' ! n"

function show_nat :: "nat \<Rightarrow> string" where
  "show_nat n =
     (if n < 10 then [digit n]
      else show_nat (n div 10) @ [digit (n mod 10)])"
  by pat_completeness auto
termination
  by (relation "measure id") auto

subsection \<open>\<open>JSON.stringify\<close>\<close>

text \<open>\<open>QuoteJSONString\<close>: the escapes of one character, then the quoted string.\<close>

definition escape_char :: "char \<Rightarrow> string" where
  "escape_char c =
     (if c = CHR 0x08 then [CHR 0x5C, CHR ''b'']
      else if c = CHR 0x09 then [CHR 0x5C, CHR ''t'']
      else if c = CHR 0x0A then [CHR 0x5C, CHR ''n'']
      else if c = CHR 0x0C then [CHR 0x5C, CHR ''f'']
      else if c = CHR 0x0D then [CHR 0x5C, CHR ''r'']
      else if c = CHR 0x22 then [CHR 0x5C, CHR 0x22]
      else if c = CHR 0x5C then [CHR 0x5C, CHR 0x5C]
      else if (of_char c :: nat) < 32
        then [CHR 0x5C, CHR ''u'', CHR ''0'', CHR ''0'',
              digit ((of_char c :: nat) div 16), digit ((of_char c :: nat) mod 16)]
      else [c])"

definition QuoteJSONString :: "string \<Rightarrow> string" where
  "QuoteJSONString s = [CHR 0x22] @ concat (map escape_char s) @ [CHR 0x22]"

text \<open>
  \<open>SerializeJSONProperty\<close>: \<open>None\<close> is \<open>undefined\<close>. Compact output: no white space, the
  properties of an object in property order, a property whose value is \<open>undefined\<close>
  left out, an \<open>undefined\<close> array element written \<open>null\<close>. Parsed JSON holds no function,
  so no \<open>toJSON\<close> is ever called.
\<close>

fun SerializeJSONProperty :: "jsval \<Rightarrow> string option" where
  "SerializeJSONProperty JUndefined = None"
| "SerializeJSONProperty JNull = Some ''null''"
| "SerializeJSONProperty (JBool b) = Some (if b then ''true'' else ''false'')"
| "SerializeJSONProperty (JNum s) = Some s"
| "SerializeJSONProperty (JStr s) = Some (QuoteJSONString s)"
| "SerializeJSONProperty (JArr xs) =
     Some (''['' @
       join '','' (map (\<lambda>x. case SerializeJSONProperty x of None \<Rightarrow> ''null'' | Some s \<Rightarrow> s) xs)
       @ '']'')"
| "SerializeJSONProperty (JObj kvs) =
     Some (''{'' @
       join '','' (concat (map (\<lambda>(k, v). case SerializeJSONProperty v of
                                         None \<Rightarrow> []
                                       | Some s \<Rightarrow> [QuoteJSONString k @ '':'' @ s]) kvs))
       @ ''}'')"

text \<open>\<open>JSON.stringify(v)\<close>: a string, or \<open>undefined\<close> when \<open>v\<close> is \<open>undefined\<close>.\<close>

definition JSON_stringify :: "jsval \<Rightarrow> jsval" where
  "JSON_stringify v = (case SerializeJSONProperty v of None \<Rightarrow> JUndefined | Some s \<Rightarrow> JStr s)"

section \<open>tokenizer.ts\<close>

lemma own_property_size:
  "own_property kvs k = v \<Longrightarrow> v \<noteq> JUndefined \<Longrightarrow> size v < size (JObj kvs)"
proof (induction kvs)
  case Nil
  then show ?case by (simp add: own_property_def)
next
  case (Cons kv kvs)
  obtain k' v' where kv: "kv = (k', v')" by (cases kv)
  show ?case
  proof (cases "k' = k")
    case True
    with Cons.prems kv show ?thesis by (simp add: own_property_def)
  next
    case False
    with Cons.prems kv have "own_property kvs k = v" by (simp add: own_property_def)
    with Cons.IH Cons.prems kv show ?thesis by simp
  qed
qed

lemma get_prop_size:
  "get_prop b k = Inr v \<Longrightarrow> v \<noteq> JUndefined \<Longrightarrow> size v < size b"
proof (cases b)
  case (JObj kvs)
  assume "get_prop b k = Inr v" and "v \<noteq> JUndefined"
  with JObj have "own_property kvs k = v" by simp
  from own_property_size [OF this \<open>v \<noteq> JUndefined\<close>] JObj show ?thesis by simp
qed auto

text \<open>
  \<open>extractTextFromContentBlock\<close> (lines 12-34), with \<open>xs.map(extractTextFromContentBlock)\<close>
  as its companion on lists. The function returns whatever the branch returns: for a
  \<open>text\<close> block the value of \<open>block.text\<close>, whatever its type.
\<close>

function extractTextFromContentBlock :: "jsval \<Rightarrow> js_error + jsval"
  and map_extractTextFromContentBlock :: "jsval list \<Rightarrow> js_error + jsval list" where
  "extractTextFromContentBlock block =
     (case get_prop block ''type'' of
        Inl e \<Rightarrow> Inl e
      | Inr t \<Rightarrow>
          if t = JStr ''text'' then get_prop block ''text''
          else if t = JStr ''tool_use'' then
            (case get_prop block ''name'' of
               Inl e \<Rightarrow> Inl e
             | Inr name \<Rightarrow>
                 (case ToString name of
                    Inl e \<Rightarrow> Inl e
                  | Inr n \<Rightarrow>
                      (case get_prop block ''input'' of
                         Inl e \<Rightarrow> Inl e
                       | Inr input \<Rightarrow>
                           (case ToString (JSON_stringify input) of
                              Inl e \<Rightarrow> Inl e
                            | Inr j \<Rightarrow> Inr (JStr (n @ j))))))
          else if t = JStr ''tool_result'' then
            (case get_prop block ''content'' of
               Inl e \<Rightarrow> Inl e
             | Inr (JStr s) \<Rightarrow> Inr (JStr s)
             | Inr (JArr bs) \<Rightarrow>
                 (case map_extractTextFromContentBlock bs of
                    Inl e \<Rightarrow> Inl e
                  | Inr ts \<Rightarrow>
                      (case Array_join [] ts of Inl e \<Rightarrow> Inl e | Inr s \<Rightarrow> Inr (JStr s)))
             | Inr _ \<Rightarrow> Inl TypeError)
          else if t = JStr ''image'' then Inr (JStr ''[image]'')
          else if t = JStr ''document'' then Inr (JStr ''[document]'')
          else Inr (JStr []))"
| "map_extractTextFromContentBlock [] = Inr []"
| "map_extractTextFromContentBlock (b # bs) =
     (case extractTextFromContentBlock b of
        Inl e \<Rightarrow> Inl e
      | Inr t \<Rightarrow>
          (case map_extractTextFromContentBlock bs of
             Inl e \<Rightarrow> Inl e
           | Inr ts \<Rightarrow> Inr (t # ts)))"
  by pat_completeness auto
termination
  by (relation "measure (\<lambda>x. case x of Inl b \<Rightarrow> 2 * size b | Inr bs \<Rightarrow> 2 * size_list size bs + 1)")
     (auto dest: get_prop_size)

text \<open>\<open>xs.map(f)\<close> on an array, for a callback that may throw: the first exception ends it.\<close>

fun Array_map :: "(jsval \<Rightarrow> js_error + 'a) \<Rightarrow> jsval list \<Rightarrow> js_error + 'a list" where
  "Array_map f [] = Inr []"
| "Array_map f (x # xs) =
     (case f x of
        Inl e \<Rightarrow> Inl e
      | Inr y \<Rightarrow> (case Array_map f xs of Inl e \<Rightarrow> Inl e | Inr ys \<Rightarrow> Inr (y # ys)))"

text \<open>
  \<open>v.map(extractTextFromContentBlock).join("")\<close> for a value \<open>v\<close> that is not known to be
  an array (lines 46 and 64): only an array has a callable \<open>map\<close>.
\<close>

fun map_join_blocks :: "jsval \<Rightarrow> js_error + string" where
  "map_join_blocks (JArr bs) =
     (case map_extractTextFromContentBlock bs of
        Inl e \<Rightarrow> Inl e
      | Inr ts \<Rightarrow> Array_join [] ts)"
| "map_join_blocks v = Inl TypeError"

text \<open>\<open>extractTextFromMessage\<close> (lines 39-48).\<close>

definition extractTextFromMessage :: "jsval \<Rightarrow> js_error + string" where
  "extractTextFromMessage message =
     (case get_prop message ''role'' of
        Inl e \<Rightarrow> Inl e
      | Inr role \<Rightarrow>
          (case ToString role of
             Inl e \<Rightarrow> Inl e
           | Inr r \<Rightarrow>
               (let rolePrefix = r @ '': '' in
                (case get_prop message ''content'' of
                   Inl e \<Rightarrow> Inl e
                 | Inr (JStr s) \<Rightarrow> Inr (rolePrefix @ s)
                 | Inr content \<Rightarrow>
                     (case map_join_blocks content of
                        Inl e \<Rightarrow> Inl e
                      | Inr contentText \<Rightarrow> Inr (rolePrefix @ contentText))))))"

text \<open>\<open>extractTextFromSystem\<close> (lines 53-66).\<close>

definition extractTextFromSystem :: "jsval \<Rightarrow> js_error + string" where
  "extractTextFromSystem system =
     (if \<not> truthy system then Inr []
      else (case system of
              JStr s \<Rightarrow> Inr (''system: '' @ s)
            | _ \<Rightarrow>
                (case map_join_blocks system of
                   Inl e \<Rightarrow> Inl e
                 | Inr systemText \<Rightarrow> Inr (''system: '' @ systemText))))"

text \<open>
  \<open>tools.length === 0\<close> (line 72) for a truthy value: the length of an array or of a
  string; for an object its own property \<open>length\<close>, if that is the number 0; a number
  or a boolean has no \<open>length\<close>.
\<close>

fun length_is_zero :: "jsval \<Rightarrow> bool" where
  "length_is_zero (JArr xs) = (xs = [])"
| "length_is_zero (JStr s) = (s = [])"
| "length_is_zero (JObj kvs) = (own_property kvs ''length'' = JNum ''0'')"
| "length_is_zero v = False"

text \<open>The callback of \<open>tools.map\<close> (lines 77-86).\<close>

definition tool_text :: "jsval \<Rightarrow> js_error + string" where
  "tool_text tool =
     (case get_prop tool ''name'' of
        Inl e \<Rightarrow> Inl e
      | Inr name \<Rightarrow>
          (case ToString name of
             Inl e \<Rightarrow> Inl e
           | Inr n \<Rightarrow>
               (let toolText = ''tool:'' @ n in
                (case get_prop tool ''description'' of
                   Inl e \<Rightarrow> Inl e
                 | Inr description \<Rightarrow>
                     (case (if truthy description
                            then (case ToString description of
                                    Inl e \<Rightarrow> Inl e
                                  | Inr d \<Rightarrow> Inr (toolText @ '':'' @ d))
                            else Inr toolText) of
                        Inl e \<Rightarrow> Inl e
                      | Inr toolText \<Rightarrow>
                          (case get_prop tool ''input_schema'' of
                             Inl e \<Rightarrow> Inl e
                           | Inr input_schema \<Rightarrow>
                               (if truthy input_schema
                                then (case ToString (JSON_stringify input_schema) of
                                        Inl e \<Rightarrow> Inl e
                                      | Inr j \<Rightarrow> Inr (toolText @ j))
                                else Inr toolText)))))))"

text \<open>\<open>extractTextFromTools\<close> (lines 71-88).\<close>

definition extractTextFromTools :: "jsval \<Rightarrow> js_error + string" where
  "extractTextFromTools tools =
     (if \<not> truthy tools \<or> length_is_zero tools then Inr []
      else (case tools of
              JArr ts \<Rightarrow>
                (case Array_map tool_text ts of
                   Inl e \<Rightarrow> Inl e
                 | Inr texts \<Rightarrow> Inr (join [] texts))
            | _ \<Rightarrow> Inl TypeError))"

text \<open>
  \<open>countRequestTokens\<close> (lines 97-120). \<open>parts\<close> is the array the function fills: the
  model passes it along. \<open>push_messages\<close> is the loop of lines 113-115 over the elements
  that \<open>for ... of\<close> yields; \<open>iterate\<close> gives those elements (an array yields its
  elements, a string its characters, nothing else that JSON can hold is iterable).
\<close>

fun iterate :: "jsval \<Rightarrow> js_error + jsval list" where
  "iterate (JArr xs) = Inr xs"
| "iterate (JStr s) = Inr (map (\<lambda>c. JStr [c]) s)"
| "iterate v = Inl TypeError"

fun push_messages :: "string list \<Rightarrow> jsval list \<Rightarrow> js_error + string list" where
  "push_messages parts [] = Inr parts"
| "push_messages parts (message # messages) =
     (case extractTextFromMessage message of
        Inl e \<Rightarrow> Inl e
      | Inr t \<Rightarrow> push_messages (parts @ [t]) messages)"

text \<open>The array \<open>parts\<close> when line 117 is reached.\<close>

definition requestParts :: "jsval \<Rightarrow> js_error + string list" where
  "requestParts request =
     (let parts = [] in
      (case get_prop request ''system'' of
         Inl e \<Rightarrow> Inl e
       | Inr system \<Rightarrow>
           (case extractTextFromSystem system of
              Inl e \<Rightarrow> Inl e
            | Inr systemText \<Rightarrow>
                (let parts = (if systemText \<noteq> [] then parts @ [systemText] else parts) in
                 (case get_prop request ''tools'' of
                    Inl e \<Rightarrow> Inl e
                  | Inr tools \<Rightarrow>
                      (case extractTextFromTools tools of
                         Inl e \<Rightarrow> Inl e
                       | Inr toolsText \<Rightarrow>
                           (let parts = (if toolsText \<noteq> [] then parts @ [toolsText] else parts) in
                            (case get_prop request ''messages'' of
                               Inl e \<Rightarrow> Inl e
                             | Inr messages \<Rightarrow>
                                 (case iterate messages of
                                    Inl e \<Rightarrow> Inl e
                                  | Inr ms \<Rightarrow> push_messages parts ms)))))))))"

text \<open>The string \<open>fullText\<close> of line 118: the flattened text of the request.\<close>

definition fullText :: "jsval \<Rightarrow> js_error + string" where
  "fullText request =
     (case requestParts request of Inl e \<Rightarrow> Inl e | Inr parts \<Rightarrow> Inr (join newline parts))"

text \<open>
  \<open>countTokens\<close> is the tokenizer of \<open>@anthropic-ai/tokenizer\<close>, which is not part of this
  repository: every function that calls it takes it as its first argument, a function from
  the text to the count that always returns, as the specification assumes of it.
\<close>

definition countRequestTokens :: "(string \<Rightarrow> nat) \<Rightarrow> jsval \<Rightarrow> js_error + nat" where
  "countRequestTokens countTokens request =
     (case fullText request of Inl e \<Rightarrow> Inl e | Inr text \<Rightarrow> Inr (countTokens text))"

text \<open>\<open>countTextTokens\<close> (lines 125-127).\<close>

definition countTextTokens :: "(string \<Rightarrow> nat) \<Rightarrow> string \<Rightarrow> nat" where
  "countTextTokens countTokens text = countTokens text"

section \<open>index.ts\<close>

text \<open>
  What a handler sends: the status and the JSON body. \<open>ErrorResponse t m\<close> is
  \<open>{type: "error", error: {type: t, message: m}}\<close>. \<open>ApiError e\<close> is the body the
  \<open>catch\<close> block builds from the exception \<open>e\<close>: error type \<open>api_error\<close>, and as message
  the text the engine gave the exception.
\<close>

datatype response_body =
    CountTokensResponse nat
  | TokenCount nat
  | ErrorResponse string string
  | ApiError js_error

datatype response = Response (status: nat) (json: response_body)

text \<open>
  The loop of lines 75-99, from index \<open>i\<close> on, over the messages still to check:
  \<open>None\<close> when it finishes without a response, \<open>Some\<close> of the response it sends.
\<close>

definition invalid_role_message :: "nat \<Rightarrow> string \<Rightarrow> string" where
  "invalid_role_message i role =
     ''messages.'' @ show_nat i @ ''.role: Invalid role '' @ [CHR 0x22] @ role @ [CHR 0x22]"

definition content_required_message :: "nat \<Rightarrow> string" where
  "content_required_message i = ''messages.'' @ show_nat i @ ''.content: Field required''"

fun validate_messages :: "nat \<Rightarrow> jsval list \<Rightarrow> js_error + response option" where
  "validate_messages i [] = Inr None"
| "validate_messages i (msg # msgs) =
     (case get_prop msg ''role'' of
        Inl e \<Rightarrow> Inl e
      | Inr role \<Rightarrow>
          if \<not> truthy role \<or> role \<notin> set [JStr ''user'', JStr ''assistant''] then
            (case ToString role of
               Inl e \<Rightarrow> Inl e
             | Inr r \<Rightarrow>
                 Inr (Some (Response 400
                   (ErrorResponse ''invalid_request_error'' (invalid_role_message i r)))))
          else
            (case get_prop msg ''content'' of
               Inl e \<Rightarrow> Inl e
             | Inr content \<Rightarrow>
                 if content = JUndefined \<or> content = JNull then
                   Inr (Some (Response 400
                     (ErrorResponse ''invalid_request_error'' (content_required_message i))))
                 else validate_messages (Suc i) msgs))"

text \<open>
  A message that passes both checks of the loop: its \<open>role\<close> is \<open>user\<close> or
  \<open>assistant\<close>, and its \<open>content\<close> is neither \<open>undefined\<close> nor \<open>null\<close>.
\<close>

definition message_ok :: "jsval \<Rightarrow> bool" where
  "message_ok msg =
     (case get_prop msg ''role'' of
        Inl e \<Rightarrow> False
      | Inr role \<Rightarrow>
          role \<in> set [JStr ''user'', JStr ''assistant'']
          \<and> (case get_prop msg ''content'' of
                Inl e \<Rightarrow> False
              | Inr content \<Rightarrow> content \<noteq> JUndefined \<and> content \<noteq> JNull))"

text \<open>The \<open>try\<close> block of \<open>POST /v1/messages/count_tokens\<close> (lines 47-108).\<close>

definition messages_count_tokens_try :: "(string \<Rightarrow> nat) \<Rightarrow> jsval \<Rightarrow> js_error + response" where
  "messages_count_tokens_try countTokens body =
     (case get_prop body ''model'' of
        Inl e \<Rightarrow> Inl e
      | Inr model \<Rightarrow>
          if \<not> truthy model then
            Inr (Response 400 (ErrorResponse ''invalid_request_error'' ''model: Field required''))
          else
            (case get_prop body ''messages'' of
               Inl e \<Rightarrow> Inl e
             | Inr messages \<Rightarrow>
                 if \<not> truthy messages \<or> \<not> isArray messages then
                   Inr (Response 400
                     (ErrorResponse ''invalid_request_error'' ''messages: Field required''))
                 else
                   (case validate_messages 0 (elements messages) of
                      Inl e \<Rightarrow> Inl e
                    | Inr (Some r) \<Rightarrow> Inr r
                    | Inr None \<Rightarrow>
                        (case countRequestTokens countTokens body of
                           Inl e \<Rightarrow> Inl e
                         | Inr inputTokens \<Rightarrow>
                             Inr (Response 200 (CountTokensResponse inputTokens))))))"

text \<open>The handler: the \<open>try\<close> block, and the \<open>catch\<close> block of lines 109-119.\<close>

definition post_messages_count_tokens :: "(string \<Rightarrow> nat) \<Rightarrow> jsval \<Rightarrow> response" where
  "post_messages_count_tokens countTokens body =
     (case messages_count_tokens_try countTokens body of
        Inl err \<Rightarrow> Response 500 (ApiError err)
      | Inr r \<Rightarrow> r)"

text \<open>\<open>POST /v1/count_tokens\<close> (lines 134-164).\<close>

definition post_count_tokens :: "(string \<Rightarrow> nat) \<Rightarrow> jsval \<Rightarrow> response" where
  "post_count_tokens countTokens body =
     (case get_prop body ''text'' of
        Inl err \<Rightarrow> Response 500 (ApiError err)
      | Inr text \<Rightarrow>
          if \<not> truthy text \<or> \<not> is_string text then
            Response 400
              (ErrorResponse ''invalid_request_error''
                 ''text: Field required and must be a string'')
          else Response 200 (TokenCount (countTextTokens countTokens (chars text))))"

section \<open>types.ts: the declared types, and how their values look at run time\<close>

text \<open>
  The types of \<open>types.ts\<close>. They say which values the flattening functions are written
  for; nothing checks them at run time. \<open>UnknownContent\<close> is a block whose \<open>type\<close> is
  none of the five declared tags: the union does not have it, the \<open>default\<close> branch of
  \<open>extractTextFromContentBlock\<close> is there for it. A value of type \<open>unknown\<close> is a
  \<open>jsval\<close>, a \<open>Record<string, unknown>\<close> the list of its properties.
\<close>

datatype SourceType = Base64 | Url

record Source =
  source_type :: SourceType
  media_type :: "string option"
  data :: "string option"
  url :: "string option"

datatype ContentBlock =
    TextContent string
  | ImageContent Source
  | DocumentContent Source
  | ToolUseContent string string "(string \<times> jsval) list"
  | ToolResultContent string Content
  | UnknownContent string "(string \<times> jsval) list"
and Content =
    ContentString string
  | ContentBlocks "ContentBlock list"

datatype Role = User | Assistant

record Message =
  role :: Role
  content :: Content

record ToolInputSchema =
  properties :: "(string \<times> jsval) list option"
  required :: "string list option"

text \<open>
  \<open>input_schema\<close> is declared required, but \<open>extractTextFromTools\<close> tests it before
  use, so the model lets it be absent.
\<close>

record Tool =
  name :: string
  description :: "string option"
  input_schema :: "ToolInputSchema option"

datatype ToolChoiceType = Auto | Any | ToolChoiceTool

record ToolChoice =
  choice_type :: ToolChoiceType
  choice_name :: "string option"

record CountTokensRequest =
  model :: string
  messages :: "Message list"
  system :: "Content option"
  tools :: "Tool list option"
  tool_choice :: "ToolChoice option"

text \<open>
  The run-time value of each type: the object with the declared properties, in the order
  of declaration, an optional property that is absent left out.
\<close>

definition optional :: "string \<Rightarrow> ('a \<Rightarrow> jsval) \<Rightarrow> 'a option \<Rightarrow> (string \<times> jsval) list" where
  "optional k f x = (case x of None \<Rightarrow> [] | Some v \<Rightarrow> [(k, f v)])"

definition js_Source :: "Source \<Rightarrow> jsval" where
  "js_Source s =
     JObj ([(''type'', JStr (case source_type s of Base64 \<Rightarrow> ''base64'' | Url \<Rightarrow> ''url''))]
           @ optional ''media_type'' JStr (media_type s)
           @ optional ''data'' JStr (data s)
           @ optional ''url'' JStr (url s))"

primrec js_ContentBlock :: "ContentBlock \<Rightarrow> jsval"
  and js_Content :: "Content \<Rightarrow> jsval" where
  "js_ContentBlock (TextContent t) = JObj [(''type'', JStr ''text''), (''text'', JStr t)]"
| "js_ContentBlock (ImageContent s) = JObj [(''type'', JStr ''image''), (''source'', js_Source s)]"
| "js_ContentBlock (DocumentContent s) =
     JObj [(''type'', JStr ''document''), (''source'', js_Source s)]"
| "js_ContentBlock (ToolUseContent i n inp) =
     JObj [(''type'', JStr ''tool_use''), (''id'', JStr i), (''name'', JStr n),
           (''input'', JObj inp)]"
| "js_ContentBlock (ToolResultContent i c) =
     JObj [(''type'', JStr ''tool_result''), (''tool_use_id'', JStr i),
           (''content'', js_Content c)]"
| "js_ContentBlock (UnknownContent t props) = JObj ((''type'', JStr t) # props)"
| "js_Content (ContentString s) = JStr s"
| "js_Content (ContentBlocks bs) = JArr (map js_ContentBlock bs)"

definition role_name :: "Role \<Rightarrow> string" where
  "role_name r = (case r of User \<Rightarrow> ''user'' | Assistant \<Rightarrow> ''assistant'')"

definition js_Message :: "Message \<Rightarrow> jsval" where
  "js_Message m =
     JObj [(''role'', JStr (role_name (role m))), (''content'', js_Content (content m))]"

definition js_ToolInputSchema :: "ToolInputSchema \<Rightarrow> jsval" where
  "js_ToolInputSchema s =
     JObj ([(''type'', JStr ''object'')]
           @ optional ''properties'' JObj (properties s)
           @ optional ''required'' (\<lambda>rs. JArr (map JStr rs)) (required s))"

definition js_Tool :: "Tool \<Rightarrow> jsval" where
  "js_Tool t =
     JObj ([(''name'', JStr (name t))]
           @ optional ''description'' JStr (description t)
           @ optional ''input_schema'' js_ToolInputSchema (input_schema t))"

definition js_ToolChoice :: "ToolChoice \<Rightarrow> jsval" where
  "js_ToolChoice c =
     JObj ([(''type'', JStr (case choice_type c of
                               Auto \<Rightarrow> ''auto'' | Any \<Rightarrow> ''any'' | ToolChoiceTool \<Rightarrow> ''tool''))]
           @ optional ''name'' JStr (choice_name c))"

definition js_CountTokensRequest :: "CountTokensRequest \<Rightarrow> jsval" where
  "js_CountTokensRequest r =
     JObj ([(''model'', JStr (model r)),
            (''messages'', JArr (map js_Message (messages r)))]
           @ optional ''system'' js_Content (system r)
           @ optional ''tools'' (\<lambda>ts. JArr (map js_Tool ts)) (tools r)
           @ optional ''tool_choice'' js_ToolChoice (tool_choice r))"

text \<open>
  A block is \<open>recognised\<close> when every \<open>UnknownContent\<close> in it carries a tag that really is
  none of the five.
\<close>

definition known_tags :: "string list" where
  "known_tags = [''text'', ''tool_use'', ''tool_result'', ''image'', ''document'']"

fun recognised :: "ContentBlock \<Rightarrow> bool"
  and recognised_content :: "Content \<Rightarrow> bool" where
  "recognised (UnknownContent t props) = (t \<notin> set known_tags)"
| "recognised (ToolResultContent i c) = recognised_content c"
| "recognised b = True"
| "recognised_content (ContentString s) = True"
| "recognised_content (ContentBlocks bs) = list_all recognised bs"

section \<open>The flattening rules on values of the declared types\<close>

text \<open>The compact JSON text of a value that is not \<open>undefined\<close>.\<close>

definition compact_json :: "jsval \<Rightarrow> string" where
  "compact_json v = chars (JSON_stringify v)"

text \<open>
  The table of content-block serialisation, as the specification words it: text, the
  literal text; \<open>tool_use\<close>, the name immediately followed by the compact JSON of the
  input; \<open>tool_result\<close>, the string verbatim or the concatenation, with no separator, of the
  flattened blocks; image and document, their placeholders; an unrecognised type, the
  empty string.
\<close>

primrec flattenBlock :: "ContentBlock \<Rightarrow> string"
  and flattenContent :: "Content \<Rightarrow> string" where
  "flattenBlock (TextContent t) = t"
| "flattenBlock (ToolUseContent i n inp) = n @ compact_json (JObj inp)"
| "flattenBlock (ToolResultContent i c) = flattenContent c"
| "flattenBlock (ImageContent s) = ''[image]''"
| "flattenBlock (DocumentContent s) = ''[document]''"
| "flattenBlock (UnknownContent t props) = []"
| "flattenContent (ContentString s) = s"
| "flattenContent (ContentBlocks bs) = concat (map flattenBlock bs)"

text \<open>
  Message serialisation, as the specification words it: the role literal, a colon and one
  space, then the content verbatim if it is a string, else the concatenation of the
  flattened blocks.
\<close>

definition flattenMessage :: "Message \<Rightarrow> string" where
  "flattenMessage m = role_name (role m) @ '': '' @ flattenContent (content m)"

text \<open>
  What the code makes of a tool: \<open>tool:\<close> and the name, then a colon and the description
  when there is one and it is not the empty string, then the compact JSON of the schema
  when there is one.
\<close>

definition flattenTool :: "Tool \<Rightarrow> string" where
  "flattenTool t =
     ''tool:'' @ name t
     @ (case description t of None \<Rightarrow> [] | Some d \<Rightarrow> if d = [] then [] else '':'' @ d)
     @ (case input_schema t of None \<Rightarrow> [] | Some sch \<Rightarrow> compact_json (js_ToolInputSchema sch))"

text \<open>The value of an optional property: \<open>undefined\<close> when it is absent.\<close>

definition js_optional :: "('a \<Rightarrow> jsval) \<Rightarrow> 'a option \<Rightarrow> jsval" where
  "js_optional f x = (case x of None \<Rightarrow> JUndefined | Some v \<Rightarrow> f v)"

definition js_Tools :: "Tool list \<Rightarrow> jsval" where
  "js_Tools ts = JArr (map js_Tool ts)"

text \<open>A request is recognised when all its blocks are.\<close>

definition recognised_request :: "CountTokensRequest \<Rightarrow> bool" where
  "recognised_request r =
     (list_all (\<lambda>m. recognised_content (content m)) (messages r)
      \<and> (case system r of None \<Rightarrow> True | Some c \<Rightarrow> recognised_content c))"

text \<open>
  What the code makes of the system field: nothing when it is absent or the empty string;
  \<open>system: \<close> and the string otherwise; for a sequence of blocks, the empty one too,
  \<open>system: \<close> and the flattened blocks.
\<close>

definition system_text :: "Content option \<Rightarrow> string" where
  "system_text sys =
     (case sys of
        None \<Rightarrow> []
      | Some (ContentString s) \<Rightarrow> if s = [] then [] else ''system: '' @ s
      | Some (ContentBlocks bs) \<Rightarrow> ''system: '' @ concat (map flattenBlock bs))"

text \<open>What the code makes of the tools field: nothing, or the tools one after the other.\<close>

definition tools_text :: "Tool list option \<Rightarrow> string" where
  "tools_text tso = (case tso of None \<Rightarrow> [] | Some ts \<Rightarrow> concat (map flattenTool ts))"

text \<open>The request of the specification's example: one user message, \<open>Hello\<close>.\<close>

definition hello_request :: jsval where
  "hello_request =
     JObj [(''model'', JStr ''x''),
           (''messages'', JArr [JObj [(''role'', JStr ''user''), (''content'', JStr ''Hello'')]])]"

text \<open>Sample values, for running the definitions.\<close>

definition sample_tools :: "Tool list" where
  "sample_tools =
     [\<lparr>name = ''a'', description = Some ''d'',
       input_schema = Some \<lparr>properties = None, required = None\<rparr>\<rparr>,
      \<lparr>name = ''b'', description = None, input_schema = None\<rparr>]"

definition sample_request :: CountTokensRequest where
  "sample_request =
     \<lparr>model = ''claude'',
      messages =
        [\<lparr>role = User, content = ContentString ''Hi''\<rparr>,
         \<lparr>role = Assistant, content = ContentBlocks [TextContent ''a'', TextContent ''b'']\<rparr>],
      system = Some (ContentString ''Be brief''),
      tools = Some sample_tools,
      tool_choice = None\<rparr>"



definition other_model_request :: jsval where
  "other_model_request =
     JObj [(''model'', JStr ''claude''),
           (''messages'', JArr [JObj [(''role'', JStr ''user''), (''content'', JStr ''Hello'')]])]"

section \<open>Lemmas about the runtime operations\<close>

declare extractTextFromContentBlock.simps [simp del]

lemma join_empty_sep: "join [] ss = concat ss"
  by (induction "[] :: string" ss rule: join.induct) auto

lemma element_strings_JStr: "element_strings (map JStr ss) = Inr ss"
  by (induction ss) auto

lemma Array_join_JStr: "Array_join sep (map JStr ss) = Inr (join sep ss)"
  by (simp add: Array_join_def element_strings_JStr)

lemma Array_join_JStr_comp: "Array_join sep (map (JStr \<circ> f) xs) = Inr (join sep (map f xs))"
  using Array_join_JStr [of sep "map f xs"] by simp

lemma ToString_stringify_object:
  "ToString (JSON_stringify (JObj kvs)) = Inr (compact_json (JObj kvs))"
  by (simp add: JSON_stringify_def compact_json_def)

section \<open>The branches of \<open>extractTextFromContentBlock\<close>\<close>

text \<open>
  On any value that is not \<open>null\<close>, whatever other properties it has and in whatever
  order: one lemma for each branch of the \<open>switch\<close>.
\<close>

lemma extractTextFromContentBlock_text:
  "get_prop b ''type'' = Inr (JStr ''text'') \<Longrightarrow>
     extractTextFromContentBlock b = get_prop b ''text''"
  by (simp add: extractTextFromContentBlock.simps)

lemma extractTextFromContentBlock_tool_use:
  "get_prop b ''type'' = Inr (JStr ''tool_use'') \<Longrightarrow>
   get_prop b ''name'' = Inr (JStr n) \<Longrightarrow>
   get_prop b ''input'' = Inr v \<Longrightarrow> v \<noteq> JUndefined \<Longrightarrow>
     extractTextFromContentBlock b = Inr (JStr (n @ compact_json v))"
  by (cases v) (simp_all add: extractTextFromContentBlock.simps JSON_stringify_def compact_json_def)

lemma extractTextFromContentBlock_tool_result_string:
  "get_prop b ''type'' = Inr (JStr ''tool_result'') \<Longrightarrow>
   get_prop b ''content'' = Inr (JStr s) \<Longrightarrow>
     extractTextFromContentBlock b = Inr (JStr s)"
  by (simp add: extractTextFromContentBlock.simps)

lemma extractTextFromContentBlock_tool_result_blocks:
  "get_prop b ''type'' = Inr (JStr ''tool_result'') \<Longrightarrow>
   get_prop b ''content'' = Inr (JArr bs) \<Longrightarrow>
   map_extractTextFromContentBlock bs = Inr (map JStr ss) \<Longrightarrow>
     extractTextFromContentBlock b = Inr (JStr (concat ss))"
  by (simp add: extractTextFromContentBlock.simps Array_join_JStr join_empty_sep)

lemma extractTextFromContentBlock_image:
  "get_prop b ''type'' = Inr (JStr ''image'') \<Longrightarrow>
     extractTextFromContentBlock b = Inr (JStr ''[image]'')"
  by (simp add: extractTextFromContentBlock.simps)

lemma extractTextFromContentBlock_document:
  "get_prop b ''type'' = Inr (JStr ''document'') \<Longrightarrow>
     extractTextFromContentBlock b = Inr (JStr ''[document]'')"
  by (simp add: extractTextFromContentBlock.simps)

lemma extractTextFromContentBlock_unknown:
  "get_prop b ''type'' = Inr t \<Longrightarrow> t \<notin> JStr ` set known_tags \<Longrightarrow>
     extractTextFromContentBlock b = Inr (JStr [])"
  by (auto simp: extractTextFromContentBlock.simps known_tags_def)

section \<open>The code on values of the declared types\<close>

text \<open>
  On the run-time value of a recognised block the code returns the string of the
  specification's table; on the run-time values of a list of them, \<open>map\<close> returns the list
  of those strings.
\<close>

lemma extract_typed:
  "recognised b \<Longrightarrow>
     extractTextFromContentBlock (js_ContentBlock b) = Inr (JStr (flattenBlock b))"
  "recognised_content c \<Longrightarrow>
     (case c of
        ContentString s \<Rightarrow> True
      | ContentBlocks bs \<Rightarrow>
          map_extractTextFromContentBlock (map js_ContentBlock bs)
            = Inr (map (JStr \<circ> flattenBlock) bs))"
proof (induction b and c)
  case (ContentBlocks bs)
  then show ?case
    by (induction bs) auto
next
  case (ToolResultContent i c)
  then show ?case
    by (cases c)
       (simp_all add: extractTextFromContentBlock.simps own_property_def
          Array_join_JStr_comp join_empty_sep)
qed (simp_all add: extractTextFromContentBlock.simps own_property_def
       ToString_stringify_object known_tags_def)

lemma map_extract_typed:
  "list_all recognised bs \<Longrightarrow>
     map_extractTextFromContentBlock (map js_ContentBlock bs)
       = Inr (map (JStr \<circ> flattenBlock) bs)"
  using extract_typed(2) [of "ContentBlocks bs"] by simp

lemma js_Content_present: "js_Content c \<noteq> JUndefined" "js_Content c \<noteq> JNull"
  by (cases c; simp)+

lemma message_typed:
  "recognised_content (content m) \<Longrightarrow>
     extractTextFromMessage (js_Message m) = Inr (flattenMessage m)"
  by (cases "content m")
     (simp_all add: extractTextFromMessage_def js_Message_def flattenMessage_def
        own_property_def map_extract_typed Array_join_JStr_comp join_empty_sep)

lemma push_messages_typed:
  "list_all (\<lambda>m. recognised_content (content m)) ms \<Longrightarrow>
     push_messages parts (map js_Message ms) = Inr (parts @ map flattenMessage ms)"
  by (induction ms arbitrary: parts) (simp_all add: message_typed)

lemma system_typed:
  "(case sys of None \<Rightarrow> True | Some c \<Rightarrow> recognised_content c) \<Longrightarrow>
     extractTextFromSystem (js_optional js_Content sys) = Inr (system_text sys)"
  by (auto simp: extractTextFromSystem_def js_optional_def system_text_def
        map_extract_typed Array_join_JStr_comp join_empty_sep
      split: option.splits Content.splits)

lemma tool_typed: "tool_text (js_Tool t) = Inr (flattenTool t)"
  by (auto simp: tool_text_def js_Tool_def flattenTool_def own_property_def optional_def
        js_ToolInputSchema_def ToString_stringify_object
      split: option.splits)

lemma Array_map_tool_typed: "Array_map tool_text (map js_Tool ts) = Inr (map flattenTool ts)"
  by (induction ts) (simp_all add: tool_typed)

lemma tools_typed: "extractTextFromTools (js_optional js_Tools tso) = Inr (tools_text tso)"
  by (cases tso)
     (simp_all add: extractTextFromTools_def js_optional_def js_Tools_def tools_text_def
        Array_map_tool_typed join_empty_sep)

lemma request_props:
  "get_prop (js_CountTokensRequest r) ''model'' = Inr (JStr (model r))"
  "get_prop (js_CountTokensRequest r) ''messages'' = Inr (JArr (map js_Message (messages r)))"
  "get_prop (js_CountTokensRequest r) ''system'' = Inr (js_optional js_Content (system r))"
  "get_prop (js_CountTokensRequest r) ''tools'' = Inr (js_optional js_Tools (tools r))"
  by (simp_all add: js_CountTokensRequest_def own_property_def optional_def js_optional_def
        js_Tools_def split: option.splits)

lemma validate_messages_typed: "validate_messages i (map js_Message ms) = Inr None"
proof (induction ms arbitrary: i)
  case Nil
  show ?case by simp
next
  case (Cons m ms)
  have "role_name (role m) \<noteq> []"
    and "role_name (role m) = ''user'' \<or> role_name (role m) = ''assistant''"
    by (cases "role m"; simp add: role_name_def)+
  then show ?case
    using Cons.IH by (auto simp: js_Message_def own_property_def js_Content_present)
qed

lemma requestParts_typed:
  assumes "recognised_request r"
  shows "requestParts (js_CountTokensRequest r) =
     Inr ((if system_text (system r) = [] then [] else [system_text (system r)])
          @ (if tools_text (tools r) = [] then [] else [tools_text (tools r)])
          @ map flattenMessage (messages r))"
  using assms
  by (simp add: requestParts_def request_props system_typed tools_typed
        push_messages_typed recognised_request_def)

lemma handler_typed:
  assumes "model r \<noteq> []" and "recognised_request r"
  shows "post_messages_count_tokens countTokens (js_CountTokensRequest r) =
     (case fullText (js_CountTokensRequest r) of
        Inl e \<Rightarrow> Response 500 (ApiError e)
      | Inr t \<Rightarrow> Response 200 (CountTokensResponse (countTokens t)))"
  using assms
  by (simp add: post_messages_count_tokens_def messages_count_tokens_try_def request_props
        validate_messages_typed countRequestTokens_def split: sum.splits)

text \<open>The sample request, evaluated.\<close>

lemma sample_request_props:
  "get_prop (js_CountTokensRequest sample_request) ''system'' = Inr (JStr ''Be brief'')"
  "get_prop (js_CountTokensRequest sample_request) ''tools'' = Inr (js_Tools sample_tools)"
  by (simp_all add: sample_request_def js_CountTokensRequest_def optional_def own_property_def
        js_Tools_def)

lemma sample_request_texts:
  "extractTextFromSystem (JStr ''Be brief'') = Inr ''system: Be brief''"
  \<open>extractTextFromTools (js_Tools sample_tools) = Inr ''tool:a:d{"type":"object"}tool:b''\<close>
  "map flattenMessage (messages sample_request) = [''user: Hi'', ''assistant: ab'']"
  by (simp_all add: extractTextFromSystem_def extractTextFromTools_def tool_text_def
        js_Tools_def js_Tool_def sample_tools_def own_property_def JSON_stringify_def
        js_ToolInputSchema_def optional_def QuoteJSONString_def escape_char_def
        sample_request_def flattenMessage_def role_name_def)

lemma sample_request_recognised:
  "model sample_request \<noteq> []" "recognised_request sample_request"
  by (simp_all add: sample_request_def recognised_request_def)

text \<open>The request of the specification's example, evaluated.\<close>

lemma hello_request_fullText: "fullText hello_request = Inr ''user: Hello''"
  by (simp add: hello_request_def fullText_def requestParts_def own_property_def
        extractTextFromSystem_def extractTextFromTools_def extractTextFromMessage_def)

lemma hello_request_response:
  "post_messages_count_tokens countTokens hello_request
     = Response 200 (CountTokensResponse (countTokens ''user: Hello''))"
proof -
  have count: "countRequestTokens countTokens hello_request = Inr (countTokens ''user: Hello'')"
    by (simp add: countRequestTokens_def hello_request_fullText)
  show ?thesis
    unfolding post_messages_count_tokens_def messages_count_tokens_try_def count
    by (simp add: hello_request_def own_property_def)
qed

section \<open>The claims\<close>

subsection \<open>C1: assembling the request\<close>

text \<open>
  C1. For every validated structured request, the flattened text is the join, with a
  single newline between parts, of: the system part if it is not empty, then the tools
  part if it is not empty, then one part per message in the original order, appended
  unconditionally; and the \<open>input_tokens\<close> of the response is \<open>countTokens\<close> of that
  string. A validated structured request is a value of type \<open>CountTokensRequest\<close> with a
  non-empty model; the system part and the tools part are what \<open>extractTextFromSystem\<close>
  and \<open>extractTextFromTools\<close> return on the request's \<open>system\<close> and \<open>tools\<close>.
\<close>

theorem countRequestTokens_assembly:
  assumes "model r \<noteq> []" and "recognised_request r"
  shows "\<exists>sys tls systemText toolsText.
     get_prop (js_CountTokensRequest r) ''system'' = Inr sys \<and>
     extractTextFromSystem sys = Inr systemText \<and>
     get_prop (js_CountTokensRequest r) ''tools'' = Inr tls \<and>
     extractTextFromTools tls = Inr toolsText \<and>
     fullText (js_CountTokensRequest r) =
       Inr (join newline
              ((if systemText = [] then [] else [systemText])
               @ (if toolsText = [] then [] else [toolsText])
               @ map flattenMessage (messages r))) \<and>
     post_messages_count_tokens countTokens (js_CountTokensRequest r) =
       Response 200 (CountTokensResponse (countTokens (join newline
              ((if systemText = [] then [] else [systemText])
               @ (if toolsText = [] then [] else [toolsText])
               @ map flattenMessage (messages r)))))"
proof -
  let ?s = "system_text (system r)"
  let ?t = "tools_text (tools r)"
  let ?parts = "(if ?s = [] then [] else [?s]) @ (if ?t = [] then [] else [?t])
                @ map flattenMessage (messages r)"
  from assms(2) have sys: "extractTextFromSystem (js_optional js_Content (system r)) = Inr ?s"
    by (simp add: recognised_request_def system_typed)
  have tls: "extractTextFromTools (js_optional js_Tools (tools r)) = Inr ?t"
    by (rule tools_typed)
  from assms(2) have full: "fullText (js_CountTokensRequest r) = Inr (join newline ?parts)"
    by (simp add: fullText_def requestParts_typed)
  from assms full have
    "post_messages_count_tokens countTokens (js_CountTokensRequest r) =
       Response 200 (CountTokensResponse (countTokens (join newline ?parts)))"
    by (simp add: handler_typed)
  with sys tls full show ?thesis
    using request_props(3,4) by blast
qed

theorem countRequestTokens_assembly_witness:
  \<open>model sample_request \<noteq> [] \<and> recognised_request sample_request \<and>
   fullText (js_CountTokensRequest sample_request) =
     Inr (''system: Be brief'' @ newline @ ''tool:a:d{"type":"object"}tool:b'' @ newline
          @ ''user: Hi'' @ newline @ ''assistant: ab'') \<and>
   post_messages_count_tokens length (js_CountTokensRequest sample_request) =
     Response 200 (CountTokensResponse
       (length (''system: Be brief'' @ newline @ ''tool:a:d{"type":"object"}tool:b'' @ newline
                @ ''user: Hi'' @ newline @ ''assistant: ab'')))\<close>
  using countRequestTokens_assembly [OF sample_request_recognised, of length]
    sample_request_props sample_request_texts sample_request_recognised
  by (auto simp: newline_def)

subsection \<open>C2: content blocks\<close>



subsection \<open>C3: validation of the structured contract\<close>

text \<open>
  The loop on messages that are not \<open>null\<close>: it passes over the messages that are in
  order, and answers the first one that is not, with its index, whatever follows.
\<close>

lemma validate_messages_ok:
  "list_all message_ok msgs \<Longrightarrow> validate_messages i msgs = Inr None"
  by (induction msgs arbitrary: i) (auto simp: message_ok_def split: sum.splits)

lemma validate_messages_append:
  "list_all message_ok good \<Longrightarrow>
     validate_messages i (good @ msgs) = validate_messages (i + length good) msgs"
  by (induction good arbitrary: i) (auto simp: message_ok_def split: sum.splits)

lemma validate_messages_first_bad_role:
  assumes "list_all message_ok good"
    and "get_prop msg ''role'' = Inr rl"
    and "rl \<notin> set [JStr ''user'', JStr ''assistant'']"
    and "ToString rl = Inr r"
  shows "validate_messages i (good @ msg # rest) =
     Inr (Some (Response 400 (ErrorResponse ''invalid_request_error''
                  (invalid_role_message (i + length good) r))))"
  using assms by (simp add: validate_messages_append)

lemma validate_messages_first_bad_content:
  assumes "list_all message_ok good"
    and "get_prop msg ''role'' = Inr rl"
    and "rl \<in> set [JStr ''user'', JStr ''assistant'']"
    and "get_prop msg ''content'' = Inr c"
    and "c = JUndefined \<or> c = JNull"
  shows "validate_messages i (good @ msg # rest) =
     Inr (Some (Response 400 (ErrorResponse ''invalid_request_error''
                  (content_required_message (i + length good)))))"
  using assms by (auto simp add: validate_messages_append)

text \<open>
  The examples of the specification, and a message without a role: the handler answers
  them as the validation order says.
\<close>

lemma validation_examples:
  \<open>post_messages_count_tokens countTokens (JObj [(''messages'', JArr [])])
     = Response 400 (ErrorResponse ''invalid_request_error'' ''model: Field required'')\<close>
  \<open>post_messages_count_tokens countTokens (JObj [(''model'', JStr ''x'')])
     = Response 400 (ErrorResponse ''invalid_request_error'' ''messages: Field required'')\<close>
  \<open>post_messages_count_tokens countTokens
     (JObj [(''model'', JStr ''x''),
            (''messages'', JArr [JObj [(''role'', JStr ''user''), (''content'', JStr ''a'')],
                                 JObj [(''role'', JStr ''system''), (''content'', JStr ''b'')],
                                 JObj [(''role'', JStr ''user''), (''content'', JNull)]])])
     = Response 400
         (ErrorResponse ''invalid_request_error'' ''messages.1.role: Invalid role "system"'')\<close>
  \<open>post_messages_count_tokens countTokens
     (JObj [(''model'', JStr ''x''),
            (''messages'', JArr [JObj [(''role'', JStr ''user''), (''content'', JNull)]])])
     = Response 400
         (ErrorResponse ''invalid_request_error'' ''messages.0.content: Field required'')\<close>
  \<open>post_messages_count_tokens countTokens
     (JObj [(''model'', JStr ''x''), (''messages'', JArr [JObj [(''content'', JStr ''a'')]])])
     = Response 400
         (ErrorResponse ''invalid_request_error'' ''messages.0.role: Invalid role "undefined"'')\<close>
  by (simp_all add: post_messages_count_tokens_def messages_count_tokens_try_def own_property_def
        invalid_role_message_def content_required_message_def digit_def)

text \<open>
  C3. Validation of a raw body runs the checks in order (model, messages, then role and
  content of each message) and answers the first failure with status 400 and
  \<open>invalid_request_error\<close>; a message without a role is answered with
  \<open>messages.i.role: Invalid role "undefined"\<close>. For the body
  \<open>{"model":"x","messages":[null]}\<close> the code does not: the message at index 0 is
  \<open>null\<close>, reading its \<open>role\<close> throws, and the handler answers 500 with \<open>api_error\<close>.
\<close>

theorem null_message_api_error:
  "post_messages_count_tokens countTokens
     (JObj [(''model'', JStr ''x''), (''messages'', JArr [JNull])])
   = Response 500 (ApiError TypeError)"
  by (simp add: post_messages_count_tokens_def messages_count_tokens_try_def own_property_def)

subsection \<open>C4: messages\<close>

text \<open>
  C4. The flattened form of every message is the role, a colon and one space, followed by
  the content verbatim when it is a string, and otherwise by the concatenation with no
  separator of the flattened blocks in order (\<open>flattenMessage\<close>); the request
  \<open>{"model":"x","messages":[{"role":"user","content":"Hello"}]}\<close> flattens to
  \<open>user: Hello\<close> and its \<open>input_tokens\<close> is \<open>countTokens\<close> of that.
\<close>

theorem extractTextFromMessage_flattenMessage:
  "(recognised_content (content m) \<longrightarrow>
      extractTextFromMessage (js_Message m) = Inr (flattenMessage m))
   \<and> fullText hello_request = Inr ''user: Hello''
   \<and> post_messages_count_tokens countTokens hello_request
       = Response 200 (CountTokensResponse (countTokens ''user: Hello''))"
  by (simp add: message_typed hello_request_fullText hello_request_response)

theorem extractTextFromMessage_flattenMessage_witness:
  "recognised_content
     (content \<lparr>role = Assistant,
               content = ContentBlocks [TextContent ''a'', ToolResultContent ''t1''
                                          (ContentBlocks [TextContent ''b'', TextContent ''c''])]\<rparr>)
   \<and> extractTextFromMessage
        (js_Message \<lparr>role = Assistant,
                     content = ContentBlocks [TextContent ''a'', ToolResultContent ''t1''
                                          (ContentBlocks [TextContent ''b'', TextContent ''c''])]\<rparr>)
       = Inr ''assistant: abc''"
  using extractTextFromMessage_flattenMessage
    [of "\<lparr>role = Assistant,
          content = ContentBlocks [TextContent ''a'', ToolResultContent ''t1''
                                     (ContentBlocks [TextContent ''b'', TextContent ''c''])]\<rparr>"
        length]
  by (simp add: flattenMessage_def role_name_def)

subsection \<open>C5: the text contract\<close>

text \<open>
  The body \<open>{"text": ""}\<close> has a \<open>text\<close> field that is present and a string, and is
  rejected.
\<close>

theorem empty_text_rejected_counterexample:
  "get_prop (JObj [(''text'', JStr [])]) ''text'' = Inr (JStr [])
   \<and> is_string (JStr [])
   \<and> post_count_tokens length (JObj [(''text'', JStr [])])
       = Response 400 (ErrorResponse ''invalid_request_error''
                         ''text: Field required and must be a string'')"
  by (simp add: post_count_tokens_def own_property_def)

text \<open>
  C5, amended. For the text contract, on a body whose \<open>text\<close> can be read (any body but
  \<open>null\<close> and \<open>undefined\<close>): when \<open>text\<close> is a string and not the empty string the
  response is 200 with \<open>token_count\<close> equal to \<open>countTokens\<close> of that exact string;
  otherwise (absent, not a string, or the empty string) it is 400,
  \<open>invalid_request_error\<close>, \<open>text: Field required and must be a string\<close>.
\<close>

theorem post_count_tokens_nonempty_string:
  assumes "get_prop body ''text'' = Inr v"
  shows "post_count_tokens countTokens body =
     (if is_string v \<and> v \<noteq> JStr []
      then Response 200 (TokenCount (countTokens (chars v)))
      else Response 400 (ErrorResponse ''invalid_request_error''
                           ''text: Field required and must be a string''))"
  using assms by (cases v) (simp_all add: post_count_tokens_def countTextTokens_def)

theorem post_count_tokens_nonempty_string_witness:
  "get_prop (JObj [(''text'', JStr ''Hello world'')]) ''text'' = Inr (JStr ''Hello world'')
   \<and> post_count_tokens length (JObj [(''text'', JStr ''Hello world'')])
       = Response 200 (TokenCount (length ''Hello world''))"
proof -
  have h: "get_prop (JObj [(''text'', JStr ''Hello world'')]) ''text'' = Inr (JStr ''Hello world'')"
    by (simp add: own_property_def)
  from post_count_tokens_nonempty_string [OF h, of length] h show ?thesis
    by simp
qed

subsection \<open>C6: the system field\<close>




subsection \<open>C7: the tools field\<close>




subsection \<open>C8: determinism\<close>



subsection \<open>C9: the model field\<close>

text \<open>
  C9. The model field does not affect counting: two requests that are equal except for
  the value of their model field, both with a model that passes validation, have the
  same flattened text and get the same response.
\<close>

theorem model_does_not_affect_counting:
  assumes "\<forall>k. k \<noteq> ''model'' \<longrightarrow> get_prop body1 k = get_prop body2 k"
    and "get_prop body1 ''model'' = Inr model1" and "truthy model1"
    and "get_prop body2 ''model'' = Inr model2" and "truthy model2"
  shows "fullText body1 = fullText body2
     \<and> post_messages_count_tokens countTokens body1
         = post_messages_count_tokens countTokens body2"
proof -
  from assms(1) have eq: "get_prop body1 ''system'' = get_prop body2 ''system''"
    "get_prop body1 ''tools'' = get_prop body2 ''tools''"
    "get_prop body1 ''messages'' = get_prop body2 ''messages''"
    by simp_all
  have parts: "requestParts body1 = requestParts body2"
    unfolding requestParts_def eq by (rule refl)
  then have full: "fullText body1 = fullText body2"
    by (simp add: fullText_def)
  then have cnt: "countRequestTokens countTokens body1 = countRequestTokens countTokens body2"
    by (simp add: countRequestTokens_def)
  have "messages_count_tokens_try countTokens body1 = messages_count_tokens_try countTokens body2"
    unfolding messages_count_tokens_try_def assms(2,4) eq(3) cnt
    using assms(3,5) by simp
  with full show ?thesis
    by (simp add: post_messages_count_tokens_def)
qed

theorem model_does_not_affect_counting_witness:
  "get_prop hello_request ''model'' = Inr (JStr ''x'') \<and> truthy (JStr ''x'')
   \<and> get_prop other_model_request ''model'' = Inr (JStr ''claude'') \<and> truthy (JStr ''claude'')
   \<and> fullText other_model_request = Inr ''user: Hello''
   \<and> post_messages_count_tokens length other_model_request
       = Response 200 (CountTokensResponse (length ''user: Hello''))"
proof -
  have k: "\<forall>k. k \<noteq> ''model'' \<longrightarrow> get_prop hello_request k = get_prop other_model_request k"
    by (simp add: hello_request_def other_model_request_def own_property_def)
  have m: "get_prop hello_request ''model'' = Inr (JStr ''x'')" "truthy (JStr ''x'')"
    "get_prop other_model_request ''model'' = Inr (JStr ''claude'')" "truthy (JStr ''claude'')"
    by (simp_all add: hello_request_def other_model_request_def own_property_def)
  from model_does_not_affect_counting [OF k m, of length] m
    hello_request_fullText hello_request_response [of length]
  show ?thesis
    by simp
qed

subsection \<open>C10: the number of parts\<close>

text \<open>
  C10. The flattened string of every message whose role passed validation begins with
  the role followed by a colon and a space, and so is never empty; and for every
  validated request the number of newline-joined parts of the flattened text is 1 if the
  system text is not empty, plus 1 if the tools text is not empty, plus the number of
  messages.
\<close>

theorem message_parts_count:
  assumes "recognised_request r"
  shows "(\<forall>m \<in> set (messages r). \<exists>t rest.
            extractTextFromMessage (js_Message m) = Inr t
            \<and> t = role_name (role m) @ '': '' @ rest \<and> t \<noteq> [])
   \<and> (\<exists>sys tls systemText toolsText parts.
          get_prop (js_CountTokensRequest r) ''system'' = Inr sys \<and>
          extractTextFromSystem sys = Inr systemText \<and>
          get_prop (js_CountTokensRequest r) ''tools'' = Inr tls \<and>
          extractTextFromTools tls = Inr toolsText \<and>
          requestParts (js_CountTokensRequest r) = Inr parts \<and>
          fullText (js_CountTokensRequest r) = Inr (join newline parts) \<and>
          length parts = (if systemText = [] then 0 else 1) + (if toolsText = [] then 0 else 1)
                         + length (messages r))"
proof
  show "\<forall>m \<in> set (messages r). \<exists>t rest.
            extractTextFromMessage (js_Message m) = Inr t
            \<and> t = role_name (role m) @ '': '' @ rest \<and> t \<noteq> []"
  proof
    fix m assume "m \<in> set (messages r)"
    with assms have "recognised_content (content m)"
      by (simp add: recognised_request_def list_all_iff)
    then have "extractTextFromMessage (js_Message m) = Inr (flattenMessage m)"
      by (rule message_typed)
    then show "\<exists>t rest. extractTextFromMessage (js_Message m) = Inr t
            \<and> t = role_name (role m) @ '': '' @ rest \<and> t \<noteq> []"
      by (simp add: flattenMessage_def)
  qed
next
  let ?s = "system_text (system r)"
  let ?t = "tools_text (tools r)"
  let ?parts = "(if ?s = [] then [] else [?s]) @ (if ?t = [] then [] else [?t])
                @ map flattenMessage (messages r)"
  from assms have sys: "extractTextFromSystem (js_optional js_Content (system r)) = Inr ?s"
    by (simp add: recognised_request_def system_typed)
  have tls: "extractTextFromTools (js_optional js_Tools (tools r)) = Inr ?t"
    by (rule tools_typed)
  from assms have parts: "requestParts (js_CountTokensRequest r) = Inr ?parts"
    by (rule requestParts_typed)
  then have full: "fullText (js_CountTokensRequest r) = Inr (join newline ?parts)"
    by (simp add: fullText_def)
  have len: "length ?parts = (if ?s = [] then 0 else 1) + (if ?t = [] then 0 else 1)
                         + length (messages r)"
    by simp
  from sys tls parts full len request_props(3,4) [of r]
  show "\<exists>sys tls systemText toolsText parts.
          get_prop (js_CountTokensRequest r) ''system'' = Inr sys \<and>
          extractTextFromSystem sys = Inr systemText \<and>
          get_prop (js_CountTokensRequest r) ''tools'' = Inr tls \<and>
          extractTextFromTools tls = Inr toolsText \<and>
          requestParts (js_CountTokensRequest r) = Inr parts \<and>
          fullText (js_CountTokensRequest r) = Inr (join newline parts) \<and>
          length parts = (if systemText = [] then 0 else 1) + (if toolsText = [] then 0 else 1)
                         + length (messages r)"
    by blast
qed

theorem message_parts_count_witness:
  "recognised_request sample_request
   \<and> (\<exists>t rest. extractTextFromMessage
                  (js_Message \<lparr>role = User, content = ContentString ''Hi''\<rparr>) = Inr t
               \<and> t = ''user: '' @ rest \<and> t \<noteq> [])
   \<and> (\<exists>parts. requestParts (js_CountTokensRequest sample_request) = Inr parts
               \<and> length parts = 4)"
proof -
  have mem: "\<lparr>role = User, content = ContentString ''Hi''\<rparr> \<in> set (messages sample_request)"
    by (simp add: sample_request_def)
  have len: "length (messages sample_request) = 2"
    by (simp add: sample_request_def)
  from message_parts_count [OF sample_request_recognised(2)]
  have a: "\<forall>m \<in> set (messages sample_request). \<exists>t rest.
            extractTextFromMessage (js_Message m) = Inr t
            \<and> t = role_name (role m) @ '': '' @ rest \<and> t \<noteq> []"
    and b: "\<exists>sys tls systemText toolsText parts.
          get_prop (js_CountTokensRequest sample_request) ''system'' = Inr sys \<and>
          extractTextFromSystem sys = Inr systemText \<and>
          get_prop (js_CountTokensRequest sample_request) ''tools'' = Inr tls \<and>
          extractTextFromTools tls = Inr toolsText \<and>
          requestParts (js_CountTokensRequest sample_request) = Inr parts \<and>
          fullText (js_CountTokensRequest sample_request) = Inr (join newline parts) \<and>
          length parts = (if systemText = [] then 0 else 1) + (if toolsText = [] then 0 else 1)
                         + length (messages sample_request)"
    by blast+
  from a mem have first:
    "\<exists>t rest. extractTextFromMessage
                  (js_Message \<lparr>role = User, content = ContentString ''Hi''\<rparr>) = Inr t
               \<and> t = ''user: '' @ rest \<and> t \<noteq> []"
    by (auto simp: role_name_def dest!: bspec)
  from b sample_request_props sample_request_texts len
  have "\<exists>parts. requestParts (js_CountTokensRequest sample_request) = Inr parts
               \<and> length parts = 4"
    by auto
  with first sample_request_recognised(2) show ?thesis
    by blast
qed

end
